theory Spec2Isabelle
  imports Main "HOL-Library.AList"
begin

section \<open>Values, references and the store\<close>

text \<open>
  The package \<open>request\<close> is a fluent builder over Go's \<open>net/http\<close>. Its methods have
  pointer receivers and mutate the builder in place, the header container is a Go map
  whose values are slices, and the result shapes are \<open>interface{}\<close> values that usually
  hold pointers. All of that is aliasing, so the model keeps an explicit store.
\<close>

type_synonym addr = nat
type_synonym bytes = string

text \<open>A Go \<open>error\<close> value, represented by what \<open>err.Error()\<close> returns.\<close>

datatype error = Error string

fun Error_msg :: "error \<Rightarrow> string" where
  "Error_msg (Error m) = m"

text \<open>A Go call either returns its results or panics.\<close>

datatype 'a outcome = Panic | Ret 'a

fun andThen :: "'a outcome \<Rightarrow> ('a \<Rightarrow> 'b outcome) \<Rightarrow> 'b outcome" where
  "andThen Panic f = Panic"
| "andThen (Ret x) f = f x"

text \<open>
  An \<open>interface{}\<close> value: \<open>nil\<close>, a pointer to an object of the store, a value held
  directly, a pointer to a \<open>Request\<close> struct (a builder), or a pointer to one of the
  exported interface fields of a builder (\<open>&b.Success\<close>, \<open>&b.Failure\<close>). \<open>x != nil\<close> on
  an interface is \<open>x \<noteq> Nil\<close>.
\<close>

datatype slot = Success_slot | Failure_slot

datatype 'v iface = Nil | Ref addr | Val 'v | RequestPtr addr | FieldPtr addr slot

text \<open>
  A slice header \<open>[]string\<close>: the backing array, the length and the capacity. Slices of
  this package are only made by \<open>append\<close> and by slice literals, so they start at index
  0 of their array. The \<open>nil\<close> slice has length and capacity 0.
\<close>

record slice =
  s_arr :: addr
  s_len :: nat
  s_cap :: nat

definition nil_slice :: slice where
  "nil_slice = \<lparr>s_arr = 0, s_len = 0, s_cap = 0\<rparr>"

text \<open>\<open>http.Header\<close> and \<open>url.Values\<close> seen as content: keys with their lists of values.\<close>

type_synonym http_Header = "(string \<times> string list) list"

text \<open>
  \<open>url.URL\<close>, reduced to what this package touches: the query component, and the rest
  of the URL on either side of it.
\<close>

record URL =
  Prefix :: string
  ForceQuery :: bool
  RawQuery :: string
  Fragment :: string

record http_Request =
  req_Method :: string
  req_URL :: URL
  req_Header :: http_Header
  req_Body :: "bytes option"

text \<open>A response body stream: the bytes it yields and the error it ends with, if any.\<close>

datatype reader = Reader bytes "error option"

record http_Response =
  resp_StatusCode :: int
  resp_Header :: http_Header
  resp_Body :: reader

text \<open>
  The struct \<open>Request\<close>. A \<open>nil\<close> client interface or \<open>nil\<close> header map is \<open>None\<close>; the
  field \<open>method\<close> is written \<open>method'\<close>.
\<close>

record 'v Request =
  client :: "addr option"
  method' :: string
  url :: string
  header :: "addr option"
  query :: "'v iface"
  body :: "'v iface"
  Success :: "'v iface"
  Failure :: "'v iface"

text \<open>The struct \<open>Response\<close> of response.go.\<close>

record 'v Response =
  StatusCode :: int
  Header :: http_Header
  Response_Success :: "'v iface"
  Response_Failure :: "'v iface"

text \<open>
  The store: the \<open>Request\<close> structs behind \<open>*Request\<close> pointers, the map objects behind
  \<open>http.Header\<close> values, the backing arrays of slices, the objects that interface values
  point to, and the next unused address.
\<close>

record 'v state =
  requests :: "addr \<rightharpoonup> 'v Request"
  hmaps :: "addr \<Rightarrow> (string \<times> slice) list"
  arrays :: "addr \<Rightarrow> string list"
  objs :: "addr \<rightharpoonup> 'v"
  fresh :: addr

section \<open>Collaborators\<close>

text \<open>
  The Go standard library, \<open>go-querystring\<close> and the transport are not part of the
  repository. What the package calls of them is a parameter of every operation:
  \<^item> \<open>json.Marshal\<close>, which reads the store, and \<open>json.Unmarshal\<close> into the address
    of an interface field: it may write through the pointer the field holds, to
    whatever of the store that pointer leads to, or replace what the field holds;
  \<^item> \<open>query.Values\<close>, which reads the store, and \<open>url.Values.Encode\<close>;
  \<^item> \<open>url.Parse\<close>, \<open>(*url.URL).String\<close>, and the method check of \<open>http.NewRequest\<close>;
  \<^item> \<open>textproto.CanonicalMIMEHeaderKey\<close>;
  \<^item> the capacity that \<open>append\<close> picks when it must allocate (old capacity, needed
    length);
  \<^item> \<open>Do\<close> of the client an \<open>httpClient\<close> value refers to.
\<close>

record 'v env =
  json_Marshal :: "'v iface \<Rightarrow> 'v state \<Rightarrow> error + bytes"
  json_Unmarshal :: "bytes \<Rightarrow> 'v iface \<Rightarrow> 'v state \<Rightarrow> error option \<times> 'v iface \<times> 'v state"
  query_Values :: "'v iface \<Rightarrow> 'v state \<Rightarrow> error + http_Header"
  Values_Encode :: "http_Header \<Rightarrow> string"
  url_Parse :: "string \<Rightarrow> error + URL"
  URL_String :: "URL \<Rightarrow> string"
  validMethod :: "string \<Rightarrow> bool"
  CanonicalMIMEHeaderKey :: "string \<Rightarrow> string"
  growslice :: "nat \<Rightarrow> nat \<Rightarrow> nat"
  client_Do :: "addr \<Rightarrow> http_Request option \<Rightarrow> error + http_Response"

text \<open>A Go result pair \<open>(x, err)\<close> of a library call that returns one of the two.\<close>

fun go_pair :: "error + 'a \<Rightarrow> 'a option \<times> error option" where
  "go_pair (Inl e) = (None, Some e)"
| "go_pair (Inr x) = (Some x, None)"

text \<open>
  The verb \<open>%q\<close> of \<open>fmt\<close> (\<open>strconv.Quote\<close>) on ASCII text: double quotes around the
  string, a backslash before a double quote or a backslash, and escapes for control
  bytes. Bytes from 0x80 on are kept as they are, as Go keeps printable UTF-8.
\<close>

definition hex_digit :: "nat \<Rightarrow> char" where
  "hex_digit k = ''0123456789abcdef'' ! (k mod 16)"

definition quote_byte :: "char \<Rightarrow> string" where
  "quote_byte c =
     (let n = (of_char c :: nat) in
      if c = CHR ''\"'' then [CHR 0x5C, CHR ''\"'']
      else if n = 92 then [CHR 0x5C, CHR 0x5C]
      else if n = 7 then [CHR 0x5C, CHR ''a'']
      else if n = 8 then [CHR 0x5C, CHR ''b'']
      else if n = 12 then [CHR 0x5C, CHR ''f'']
      else if n = 10 then [CHR 0x5C, CHR ''n'']
      else if n = 13 then [CHR 0x5C, CHR ''r'']
      else if n = 9 then [CHR 0x5C, CHR ''t'']
      else if n = 11 then [CHR 0x5C, CHR ''v'']
      else if n < 32 then [CHR 0x5C, CHR ''x'', hex_digit (n div 16), hex_digit n]
      else if n = 127 then [CHR 0x5C, CHR ''x'', hex_digit (n div 16), hex_digit n]
      else [c])"

definition strconv_Quote :: "string \<Rightarrow> string" where
  "strconv_Quote x = CHR ''\"'' # concat (map quote_byte x) @ [CHR ''\"'']"

text \<open>
  \<open>http.NewRequest\<close>: an empty method means GET, the method must be a token
  (\<open>fmt.Errorf("net/http: invalid method %q", method)\<close> otherwise), the URL must
  parse, and the new request starts with \<open>Header: make(Header)\<close>.
\<close>

definition http_NewRequest :: "'v env \<Rightarrow> string \<Rightarrow> string \<Rightarrow> bytes option \<Rightarrow> error + http_Request" where
  "http_NewRequest L m address b =
     (let m' = (if m = [] then ''GET'' else m) in
      if validMethod L m' then
        (case url_Parse L address of
           Inl e \<Rightarrow> Inl e
         | Inr u \<Rightarrow> Inr \<lparr>req_Method = m', req_URL = u, req_Header = [], req_Body = b\<rparr>)
      else Inl (Error (''net/http: invalid method '' @ strconv_Quote m')))"

text \<open>\<open>ioutil.ReadAll\<close>: all the bytes, or the error the stream ended with.\<close>

fun ioutil_ReadAll :: "reader \<Rightarrow> error + bytes" where
  "ioutil_ReadAll (Reader bs None) = Inr bs"
| "ioutil_ReadAll (Reader bs (Some e)) = Inl e"

text \<open>
  \<open>append(sl, v)\<close> for one value: with spare capacity it writes into the backing array
  that \<open>sl\<close> already has, otherwise it allocates a new array and copies.
\<close>

definition append' :: "'v env \<Rightarrow> slice \<Rightarrow> string \<Rightarrow> 'v state \<Rightarrow> slice \<times> 'v state" where
  "append' L sl v s =
     (if s_len sl < s_cap sl then
        (sl\<lparr>s_len := s_len sl + 1\<rparr>,
         s\<lparr>arrays := (arrays s)(s_arr sl := (arrays s (s_arr sl))[s_len sl := v])\<rparr>)
      else
        (let n = growslice L (s_cap sl) (s_len sl + 1); a = fresh s in
         (\<lparr>s_arr = a, s_len = s_len sl + 1, s_cap = n\<rparr>,
          s\<lparr>arrays := (arrays s)(a := take (s_len sl) (arrays s (s_arr sl)) @ [v]
                                        @ replicate (n - (s_len sl + 1)) []),
            fresh := a + 1\<rparr>)))"

text \<open>
  \<open>http.Header.Add\<close>: \<open>h[key] = append(h[key], value)\<close> under the canonical key. A missing
  key reads as the \<open>nil\<close> slice; assigning into a \<open>nil\<close> map panics.
\<close>

definition Header_Add :: "'v env \<Rightarrow> addr option \<Rightarrow> string \<Rightarrow> string \<Rightarrow> 'v state \<Rightarrow> 'v state outcome" where
  "Header_Add L h key v s =
     (case h of
        None \<Rightarrow> Panic
      | Some a \<Rightarrow>
          (let k = CanonicalMIMEHeaderKey L key;
               old = (case map_of (hmaps s a) k of None \<Rightarrow> nil_slice | Some sl \<Rightarrow> sl);
               (sl', s') = append' L old v s
           in Ret (s'\<lparr>hmaps := (hmaps s')(a := AList.update k sl' (hmaps s' a))\<rparr>)))"

text \<open>\<open>http.Header.Set\<close>: \<open>h[key] = []string{value}\<close> under the canonical key.\<close>

definition Header_Set :: "'v env \<Rightarrow> addr option \<Rightarrow> string \<Rightarrow> string \<Rightarrow> 'v state \<Rightarrow> 'v state outcome" where
  "Header_Set L h key v s =
     (case h of
        None \<Rightarrow> Panic
      | Some a \<Rightarrow>
          (let k = CanonicalMIMEHeaderKey L key; x = fresh s in
           Ret (s\<lparr>arrays := (arrays s)(x := [v]),
                  hmaps := (hmaps s)(a := AList.update k \<lparr>s_arr = x, s_len = 1, s_cap = 1\<rparr> (hmaps s a)),
                  fresh := x + 1\<rparr>)))"

text \<open>What a slice and a header map hold, as a reader of the map sees them.\<close>

definition slice_content :: "'v state \<Rightarrow> slice \<Rightarrow> string list" where
  "slice_content s sl = take (s_len sl) (arrays s (s_arr sl))"

definition header_content :: "'v state \<Rightarrow> addr option \<Rightarrow> http_Header" where
  "header_content s h =
     (case h of None \<Rightarrow> [] | Some a \<Rightarrow> map (\<lambda>(k, sl). (k, slice_content s sl)) (hmaps s a))"

section \<open>The builder\<close>

text \<open>Every method dereferences its receiver; on a \<open>nil\<close> receiver that panics.\<close>

definition with_receiver :: "'v state \<Rightarrow> addr \<Rightarrow> ('v Request \<Rightarrow> 'a outcome) \<Rightarrow> 'a outcome" where
  "with_receiver s r f = (case requests s r of None \<Rightarrow> Panic | Some b \<Rightarrow> f b)"

definition put :: "addr \<Rightarrow> 'v Request \<Rightarrow> 'v state \<Rightarrow> 'v state" where
  "put r b s = s\<lparr>requests := (requests s)(r \<mapsto> b)\<rparr>"

text \<open>
  The package function \<open>New()\<close>: a new client (\<open>&http.Client{Timeout: 3s}\<close>), an empty
  header map, method GET.
\<close>

definition request_New :: "'v state \<Rightarrow> addr \<times> 'v state" where
  "request_New s =
     (let c = fresh s; h = c + 1; r = h + 1 in
      (r, s\<lparr>requests := (requests s)(r \<mapsto>
               \<lparr>client = Some c, method' = ''GET'', url = [], header = Some h,
                query = Nil, body = Nil, Success = Nil, Failure = Nil\<rparr>),
             hmaps := (hmaps s)(h := []),
             fresh := r + 1\<rparr>))"

text \<open>
  The method \<open>(r *Request) New()\<close>. The loop \<open>for key, value := range r.header\<close> assigns
  each slice header into the new map; ranging over a \<open>nil\<close> map does nothing.
\<close>

fun copy_entries :: "(string \<times> slice) list \<Rightarrow> (string \<times> slice) list \<Rightarrow> (string \<times> slice) list" where
  "copy_entries [] headers = headers"
| "copy_entries ((key, value) # rest) headers = copy_entries rest (AList.update key value headers)"

definition New :: "addr \<Rightarrow> 'v state \<Rightarrow> (addr \<times> 'v state) outcome" where
  "New r s = with_receiver s r (\<lambda>b.
     let headers = fresh s;
         entries = (case header b of None \<Rightarrow> [] | Some a \<Rightarrow> hmaps s a);
         r2 = headers + 1
     in Ret (r2, s\<lparr>requests := (requests s)(r2 \<mapsto>
                      \<lparr>client = client b, method' = method' b, url = url b, header = Some headers,
                       query = query b, body = body b, Success = Success b, Failure = Failure b\<rparr>),
                    hmaps := (hmaps s)(headers := copy_entries entries []),
                    fresh := r2 + 1\<rparr>))"

definition SetSuccess :: "addr \<Rightarrow> 'v iface \<Rightarrow> 'v state \<Rightarrow> (addr \<times> 'v state) outcome" where
  "SetSuccess r success s = with_receiver s r (\<lambda>b. Ret (r, put r (b\<lparr>Success := success\<rparr>) s))"

definition SetFailure :: "addr \<Rightarrow> 'v iface \<Rightarrow> 'v state \<Rightarrow> (addr \<times> 'v state) outcome" where
  "SetFailure r failure s = with_receiver s r (\<lambda>b. Ret (r, put r (b\<lparr>Failure := failure\<rparr>) s))"

definition SetHeader :: "'v env \<Rightarrow> addr \<Rightarrow> string \<Rightarrow> string \<Rightarrow> 'v state \<Rightarrow> (addr \<times> 'v state) outcome" where
  "SetHeader L r key v s = with_receiver s r (\<lambda>b.
     andThen (Header_Set L (header b) key v s) (\<lambda>s'. Ret (r, s')))"

definition AddHeader :: "'v env \<Rightarrow> addr \<Rightarrow> string \<Rightarrow> string \<Rightarrow> 'v state \<Rightarrow> (addr \<times> 'v state) outcome" where
  "AddHeader L r key v s = with_receiver s r (\<lambda>b.
     andThen (Header_Add L (header b) key v s) (\<lambda>s'. Ret (r, s')))"

definition SetQuery :: "addr \<Rightarrow> 'v iface \<Rightarrow> 'v state \<Rightarrow> (addr \<times> 'v state) outcome" where
  "SetQuery r q s = with_receiver s r (\<lambda>b. Ret (r, put r (b\<lparr>query := q\<rparr>) s))"

definition SetBody :: "addr \<Rightarrow> 'v iface \<Rightarrow> 'v state \<Rightarrow> (addr \<times> 'v state) outcome" where
  "SetBody r x s = with_receiver s r (\<lambda>b. Ret (r, put r (b\<lparr>body := x\<rparr>) s))"

text \<open>\<open>setURL\<close>: the URL is stored re-stringified when it parses, and left alone otherwise.\<close>

definition setURL :: "'v env \<Rightarrow> addr \<Rightarrow> string \<Rightarrow> 'v state \<Rightarrow> (addr \<times> 'v state) outcome" where
  "setURL L r address s = with_receiver s r (\<lambda>b.
     case url_Parse L address of
       Inr path \<Rightarrow> Ret (r, put r (b\<lparr>url := URL_String L path\<rparr>) s)
     | Inl err \<Rightarrow> Ret (r, s))"

definition Get :: "'v env \<Rightarrow> addr \<Rightarrow> string \<Rightarrow> 'v state \<Rightarrow> (addr \<times> 'v state) outcome" where
  "Get L r address s = with_receiver s r (\<lambda>b. setURL L r address (put r (b\<lparr>method' := ''GET''\<rparr>) s))"

definition Post :: "'v env \<Rightarrow> addr \<Rightarrow> string \<Rightarrow> 'v state \<Rightarrow> (addr \<times> 'v state) outcome" where
  "Post L r address s = with_receiver s r (\<lambda>b. setURL L r address (put r (b\<lparr>method' := ''POST''\<rparr>) s))"

definition Put :: "'v env \<Rightarrow> addr \<Rightarrow> string \<Rightarrow> 'v state \<Rightarrow> (addr \<times> 'v state) outcome" where
  "Put L r address s = with_receiver s r (\<lambda>b. setURL L r address (put r (b\<lparr>method' := ''PUT''\<rparr>) s))"

definition Head :: "'v env \<Rightarrow> addr \<Rightarrow> string \<Rightarrow> 'v state \<Rightarrow> (addr \<times> 'v state) outcome" where
  "Head L r address s = with_receiver s r (\<lambda>b. setURL L r address (put r (b\<lparr>method' := ''HEAD''\<rparr>) s))"

definition Delete :: "'v env \<Rightarrow> addr \<Rightarrow> string \<Rightarrow> 'v state \<Rightarrow> (addr \<times> 'v state) outcome" where
  "Delete L r address s = with_receiver s r (\<lambda>b. setURL L r address (put r (b\<lparr>method' := ''DELETE''\<rparr>) s))"

definition Patch :: "'v env \<Rightarrow> addr \<Rightarrow> string \<Rightarrow> 'v state \<Rightarrow> (addr \<times> 'v state) outcome" where
  "Patch L r address s = with_receiver s r (\<lambda>b. setURL L r address (put r (b\<lparr>method' := ''PATCH''\<rparr>) s))"

section \<open>Materializing and executing\<close>

text \<open>
  \<open>Request()\<close>. In the branch with a body, \<open>body, err := json.Marshal(r.body)\<close> declares a
  new \<open>err\<close> local to that block, and \<open>req, err = http.NewRequest(...)\<close> assigns to it: the
  function's own \<open>err\<close> is still \<open>nil\<close> after the block. The intermediate value below is
  the pair \<open>(req, err)\<close> of the function's variables after the \<open>if\<close>, or the early return.
  \<open>req.URL.RawQuery = ...\<close> on a \<open>nil\<close> \<open>req\<close> panics.
\<close>

definition Request :: "'v env \<Rightarrow> addr \<Rightarrow> 'v state \<Rightarrow> ((http_Request option \<times> error option) \<times> 'v state) outcome" where
  "Request L r s = with_receiver s r (\<lambda>b.
     case (if body b \<noteq> Nil then
             (case json_Marshal L (body b) s of
                Inl e \<Rightarrow> Inl e
              | Inr buff \<Rightarrow> Inr (fst (go_pair (http_NewRequest L (method' b) (url b) (Some buff))), None))
           else Inr (go_pair (http_NewRequest L (method' b) (url b) None))) of
       Inl e \<Rightarrow> Ret ((None, Some e), s)
     | Inr (req, err) \<Rightarrow>
         (case err of
            Some e \<Rightarrow> Ret ((None, Some e), s)
          | None \<Rightarrow>
              (case query_Values L (query b) s of
                 Inl e \<Rightarrow> Ret ((req, None), s)
               | Inr v \<Rightarrow>
                   (case req of
                      None \<Rightarrow> Panic
                    | Some q \<Rightarrow>
                        Ret ((Some (q\<lparr>req_URL := (req_URL q)\<lparr>RawQuery := Values_Encode L v\<rparr>\<rparr>), None), s)))))"

text \<open>
  \<open>decodeResp\<close>: \<open>resp.Success = r.Success\<close> (or \<open>Failure\<close>), then \<open>json.Unmarshal\<close> into
  the address of that field of the response. What \<open>Unmarshal\<close> leaves in the field
  goes to the response, and the store is the one \<open>Unmarshal\<close> leaves: when the shape
  points at a builder, that is where it writes.
\<close>

definition decodeResp :: "'v env \<Rightarrow> addr \<Rightarrow> 'v Response \<Rightarrow> bytes \<Rightarrow> 'v state
    \<Rightarrow> (('v Response \<times> error option) \<times> 'v state) outcome" where
  "decodeResp L r resp bodyBytes s = with_receiver s r (\<lambda>b.
     let status = StatusCode resp in
     if 200 \<le> status \<and> status \<le> 299 then
       (if Success b \<noteq> Nil then
          (case json_Unmarshal L bodyBytes (Success b) s of
             (err, v, s') \<Rightarrow> Ret ((resp\<lparr>Response_Success := v\<rparr>, err), s'))
        else Ret ((resp, None), s))
     else
       (if Failure b \<noteq> Nil then
          (case json_Unmarshal L bodyBytes (Failure b) s of
             (err, v, s') \<Rightarrow> Ret ((resp\<lparr>Response_Failure := v\<rparr>, err), s'))
        else Ret ((resp, None), s)))"

text \<open>\<open>fmt.Errorf("failed to decode API response: %s", err.Error())\<close>.\<close>

definition decode_error :: "error \<Rightarrow> error" where
  "decode_error e = Error (''failed to decode API response: '' @ Error_msg e)"

text \<open>
  \<open>do\<close>. Calling \<open>Do\<close> on a \<open>nil\<close> client interface panics. The deferred
  \<open>resp.Body.Close()\<close> releases the stream and has no part in what is returned.
\<close>

definition do' :: "'v env \<Rightarrow> addr \<Rightarrow> http_Request option \<Rightarrow> 'v state
    \<Rightarrow> (('v Response option \<times> error option) \<times> 'v state) outcome" where
  "do' L r req s = with_receiver s r (\<lambda>b.
     case client b of
       None \<Rightarrow> Panic
     | Some c \<Rightarrow>
         (case client_Do L c req of
            Inl e \<Rightarrow> Ret ((None, Some e), s)
          | Inr resp \<Rightarrow>
              (let response = \<lparr>StatusCode = resp_StatusCode resp, Header = resp_Header resp,
                               Response_Success = Nil, Response_Failure = Nil\<rparr> in
               case ioutil_ReadAll (resp_Body resp) of
                 Inl e \<Rightarrow> Ret ((None, Some e), s)
               | Inr bodyBytes \<Rightarrow>
                   andThen (decodeResp L r response bodyBytes s) (\<lambda>((response', err), s').
                     Ret ((Some response', map_option decode_error err), s')))))"

definition sendRequest :: "'v env \<Rightarrow> addr \<Rightarrow> 'v state
    \<Rightarrow> (('v Response option \<times> error option) \<times> 'v state) outcome" where
  "sendRequest L r s =
     andThen (Request L r s) (\<lambda>((req, err), s').
       case err of
         Some e \<Rightarrow> Ret ((None, Some e), s')
       | None \<Rightarrow> do' L r req s')"

definition Execute :: "'v env \<Rightarrow> addr \<Rightarrow> 'v state
    \<Rightarrow> (('v Response option \<times> error option) \<times> 'v state) outcome" where
  "Execute L r s = sendRequest L r s"


section \<open>A test double of the collaborators\<close>

text \<open>
  The concrete inputs of this development are run against stand-ins for the libraries,
  in the way the tests substitute \<open>mockClient\<close> for the transport. Each is a
  small part of the library it stands for, and agrees with it on the inputs evaluated
  in this file. The general theorems do not use them: they hold for any collaborators.
\<close>

text \<open>Objects: a struct with string fields, a string, or a channel.\<close>

datatype go_value = Struct "(string \<times> string) list" | Str string | Chan

text \<open>Token bytes (RFC 7230), as header keys and methods are checked.\<close>

definition isTokenByte :: "char \<Rightarrow> bool" where
  "isTokenByte c =
     (let n = (of_char c :: nat) in
      (48 \<le> n \<and> n \<le> 57) \<or> (65 \<le> n \<and> n \<le> 90) \<or> (97 \<le> n \<and> n \<le> 122)
      \<or> List.member [33, 35, 36, 37, 38, 39, 42, 43, 45, 46, 94, 95, 96, 124, 126] n)"

definition toUpper :: "char \<Rightarrow> char" where
  "toUpper c = (let n = (of_char c :: nat) in if 97 \<le> n \<and> n \<le> 122 then char_of (n - 32) else c)"

definition toLower :: "char \<Rightarrow> char" where
  "toLower c = (let n = (of_char c :: nat) in if 65 \<le> n \<and> n \<le> 90 then char_of (n + 32) else c)"

text \<open>
  \<open>textproto.CanonicalMIMEHeaderKey\<close>: a key of token bytes gets an upper-case letter
  first and after every hyphen and lower-case letters elsewhere; any other key is
  returned as it is.
\<close>

fun canonical_from :: "bool \<Rightarrow> string \<Rightarrow> string" where
  "canonical_from upper [] = []"
| "canonical_from upper (c # cs) =
     (let c' = (if upper then toUpper c else toLower c) in c' # canonical_from (c' = CHR ''-'') cs)"

definition textproto_CanonicalMIMEHeaderKey :: "string \<Rightarrow> string" where
  "textproto_CanonicalMIMEHeaderKey k = (if list_all isTokenByte k then canonical_from True k else k)"

text \<open>\<open>validMethod\<close> of net/http: a non-empty token.\<close>

definition http_validMethod :: "string \<Rightarrow> bool" where
  "http_validMethod m = (0 < length m \<and> list_all isTokenByte m)"

text \<open>\<open>strings.Cut\<close> at the first occurrence of a byte.\<close>

fun cut :: "char \<Rightarrow> string \<Rightarrow> string \<times> string option" where
  "cut c [] = ([], None)"
| "cut c (x # xs) = (if x = c then ([], Some xs) else (case cut c xs of (a, b) \<Rightarrow> (x # a, b)))"

definition isCTL :: "char \<Rightarrow> bool" where
  "isCTL c = (let n = (of_char c :: nat) in n < 32 \<or> n = 127)"

text \<open>
  \<open>url.Parse\<close> as far as this file needs it: the fragment is cut off at the first
  \<open>#\<close>, a control byte or a leading colon is refused, and the query is cut off at the
  first \<open>?\<close> (a lone trailing \<open>?\<close> sets \<open>ForceQuery\<close>). Scheme, host and path stay
  together in \<open>Prefix\<close>, and the other ways in which \<open>url.Parse\<close> fails are left out.
  The error is a \<open>*url.Error\<close>, whose message is \<open>parse\<close>, the quoted URL, a colon and
  the cause.
\<close>

definition url_Error :: "string \<Rightarrow> string \<Rightarrow> error" where
  "url_Error u cause = Error (''parse '' @ strconv_Quote u @ '': '' @ cause)"

definition net_url_Parse :: "string \<Rightarrow> error + URL" where
  "net_url_Parse rawURL =
     (case cut CHR ''#'' rawURL of (u, frag) \<Rightarrow>
        if list_ex isCTL u then Inl (url_Error u ''net/url: invalid control character in URL'')
        else if take 1 u = '':'' then Inl (url_Error u ''missing protocol scheme'')
        else (case cut CHR ''?'' u of (rest, q) \<Rightarrow>
               Inr \<lparr>Prefix = rest, ForceQuery = (q = Some []),
                    RawQuery = (case q of None \<Rightarrow> [] | Some x \<Rightarrow> x),
                    Fragment = (case frag of None \<Rightarrow> [] | Some f \<Rightarrow> f)\<rparr>))"

definition net_url_String :: "URL \<Rightarrow> string" where
  "net_url_String u =
     Prefix u
     @ (if ForceQuery u then CHR ''?'' # RawQuery u
        else if RawQuery u = [] then [] else CHR ''?'' # RawQuery u)
     @ (if Fragment u = [] then [] else CHR ''#'' # Fragment u)"

text \<open>
  \<open>json.Marshal\<close>: a struct becomes an object of its fields, a string a string, \<open>nil\<close>
  is \<open>null\<close>, and a channel has no encoding (\<open>UnsupportedTypeError\<close>).
\<close>

fun json_fields :: "(string \<times> string) list \<Rightarrow> string" where
  "json_fields [] = []"
| "json_fields [(k, v)] = ''\"'' @ k @ ''\":\"'' @ v @ ''\"''"
| "json_fields ((k, v) # kvs) = ''\"'' @ k @ ''\":\"'' @ v @ ''\",'' @ json_fields kvs"

fun json_of :: "go_value \<Rightarrow> error + bytes" where
  "json_of (Struct fs) = Inr (''{'' @ json_fields fs @ ''}'')"
| "json_of (Str x) = Inr (''\"'' @ x @ ''\"'')"
| "json_of Chan = Inl (Error ''json: unsupported type: chan int'')"

text \<open>
  A builder, or a field of one, as body or query object is not among the inputs of
  this file: the stand-ins for \<open>json.Marshal\<close> and \<open>query.Values\<close> refuse it.
\<close>

definition encoding_json_Marshal :: "go_value iface \<Rightarrow> go_value state \<Rightarrow> error + bytes" where
  "encoding_json_Marshal x s =
     (case x of
        Nil \<Rightarrow> Inr ''null''
      | Val v \<Rightarrow> json_of v
      | Ref a \<Rightarrow> (case objs s a of None \<Rightarrow> Inr ''null'' | Some v \<Rightarrow> json_of v)
      | RequestPtr r \<Rightarrow> Inl (Error ''json: a builder is not marshalled here'')
      | FieldPtr r f \<Rightarrow> Inl (Error ''json: a builder is not marshalled here''))"

text \<open>
  \<open>json.Unmarshal\<close> by a table of the documents the examples use; any other text is
  a syntax error (for \<open>not json\<close>, the one Go reports). Where the decoded value goes
  follows the target, as \<open>Unmarshal\<close> follows pointers:
  \<^item> through a pointer to an object it writes the object;
  \<^item> an interface that holds \<open>nil\<close> or a plain value is replaced by the decoded value;
  \<^item> through a pointer to an interface field of a builder it decodes into that field;
  \<^item> through a pointer to a builder it decodes the members \<open>Success\<close> and \<open>Failure\<close> of
    the document into the exported fields of that name, and ignores the other
    members (the other fields of \<open>Request\<close> are unexported).
  Decoding into a field that holds a pointer to an object writes that object; a field
  that holds a pointer to a builder is left alone (Go would go on through it).
\<close>

definition documents :: "(bytes \<times> go_value) list" where
  "documents =
     [(''{\"ID\":\"200\",\"Name\":\"John\"}'', Struct [(''ID'', ''200''), (''Name'', ''John'')]),
      (''{\"Failure\":\"x\"}'', Struct [(''Failure'', ''x'')])]"

definition syntax_errors :: "(bytes \<times> string) list" where
  "syntax_errors =
     [(''not json'', ''invalid character 'o' in literal null (expecting 'u')'')]"

definition syntax_error :: "bytes \<Rightarrow> error" where
  "syntax_error data =
     (case map_of syntax_errors data of
        Some m \<Rightarrow> Error m
      | None \<Rightarrow> Error ''invalid character'')"

definition get_slot :: "slot \<Rightarrow> 'v Request \<Rightarrow> 'v iface" where
  "get_slot f b = (case f of Success_slot \<Rightarrow> Success b | Failure_slot \<Rightarrow> Failure b)"

definition set_slot :: "slot \<Rightarrow> 'v iface \<Rightarrow> 'v Request \<Rightarrow> 'v Request" where
  "set_slot f x b = (case f of Success_slot \<Rightarrow> b\<lparr>Success := x\<rparr> | Failure_slot \<Rightarrow> b\<lparr>Failure := x\<rparr>)"

definition decode_into_slot :: "addr \<Rightarrow> slot \<Rightarrow> 'v \<Rightarrow> 'v state \<Rightarrow> 'v state" where
  "decode_into_slot r f v s =
     (case requests s r of
        None \<Rightarrow> s
      | Some b \<Rightarrow>
          (case get_slot f b of
             Nil \<Rightarrow> s\<lparr>requests := (requests s)(r \<mapsto> set_slot f (Val v) b)\<rparr>
           | Val w \<Rightarrow> s\<lparr>requests := (requests s)(r \<mapsto> set_slot f (Val v) b)\<rparr>
           | Ref a \<Rightarrow> s\<lparr>objs := (objs s)(a \<mapsto> v)\<rparr>
           | RequestPtr p \<Rightarrow> s
           | FieldPtr p g \<Rightarrow> s))"

fun decode_members :: "addr \<Rightarrow> (string \<times> string) list \<Rightarrow> go_value state \<Rightarrow> go_value state" where
  "decode_members r [] s = s"
| "decode_members r ((k, x) # kvs) s =
     decode_members r kvs
       (if k = ''Success'' then decode_into_slot r Success_slot (Str x) s
        else if k = ''Failure'' then decode_into_slot r Failure_slot (Str x) s
        else s)"

definition encoding_json_Unmarshal :: "bytes \<Rightarrow> go_value iface \<Rightarrow> go_value state
    \<Rightarrow> error option \<times> go_value iface \<times> go_value state" where
  "encoding_json_Unmarshal data target s =
     (case map_of documents data of
        None \<Rightarrow> (Some (syntax_error data), target, s)
      | Some v \<Rightarrow>
          (case target of
             Ref a \<Rightarrow> (None, target, s\<lparr>objs := (objs s)(a \<mapsto> v)\<rparr>)
           | Nil \<Rightarrow> (None, Val v, s)
           | Val w \<Rightarrow> (None, Val v, s)
           | FieldPtr r f \<Rightarrow> (None, target, decode_into_slot r f v s)
           | RequestPtr r \<Rightarrow>
               (case v of
                  Struct fs \<Rightarrow> (None, target, decode_members r fs s)
                | Str x \<Rightarrow>
                    (Some (Error ''json: cannot unmarshal string into Go value of type request.Request''),
                     target, s)
                | Chan \<Rightarrow>
                    (Some (Error ''json: cannot unmarshal string into Go value of type request.Request''),
                     target, s))))"

text \<open>
  \<open>query.Values\<close> of go-querystring: \<open>nil\<close> and a \<open>nil\<close> pointer give empty values and
  no error, a struct gives one value per field, anything else is refused
  (\<open>expects struct input\<close>).
\<close>

fun values_of :: "go_value \<Rightarrow> error + http_Header" where
  "values_of (Struct fs) = Inr (map (\<lambda>(k, v). (k, [v])) fs)"
| "values_of (Str x) = Inl (Error ''query: Values() expects struct input. Got string'')"
| "values_of Chan = Inl (Error ''query: Values() expects struct input. Got chan'')"

definition querystring_Values :: "go_value iface \<Rightarrow> go_value state \<Rightarrow> error + http_Header" where
  "querystring_Values x s =
     (case x of
        Nil \<Rightarrow> Inr []
      | Val v \<Rightarrow> values_of v
      | Ref a \<Rightarrow> (case objs s a of None \<Rightarrow> Inr [] | Some v \<Rightarrow> values_of v)
      | RequestPtr r \<Rightarrow> Inl (Error ''query: a builder is not encoded here'')
      | FieldPtr r f \<Rightarrow> Inl (Error ''query: a builder is not encoded here''))"

text \<open>
  \<open>url.Values.Encode\<close>: \<open>key=value\<close> pairs joined by \<open>&\<close>. The keys are taken in the
  order given (Go sorts them) and nothing is escaped.
\<close>

fun join_amp :: "string list \<Rightarrow> string" where
  "join_amp [] = []"
| "join_amp [x] = x"
| "join_amp (x # xs) = x @ ''&'' @ join_amp xs"

definition net_url_Encode :: "http_Header \<Rightarrow> string" where
  "net_url_Encode v = join_amp (concat (map (\<lambda>(k, vs). map (\<lambda>x. k @ ''='' @ x) vs) v))"

text \<open>
  The capacity \<open>append\<close> allocates for a small slice in the Go runtime: double the old
  capacity, or the needed length when that is more.
\<close>

definition runtime_growslice :: "nat \<Rightarrow> nat \<Rightarrow> nat" where
  "runtime_growslice oldCap needed = (if 2 * oldCap < needed then needed else 2 * oldCap)"

text \<open>
  Transports in the manner of \<open>mockClient\<close> with \<open>fakeHandler\<close>: the client at address 100
  answers 200 and the client at 101 answers 400, both with a document; the client at
  102 answers 200 with text that is not JSON. Any other client has no network.
\<close>

definition mockClient_Do :: "addr \<Rightarrow> http_Request option \<Rightarrow> error + http_Response" where
  "mockClient_Do c req =
     (if c = 100 then
        Inr \<lparr>resp_StatusCode = 200, resp_Header = [(''X-Id'', [''7''])],
             resp_Body = Reader ''{\"ID\":\"200\",\"Name\":\"John\"}'' None\<rparr>
      else if c = 101 then
        Inr \<lparr>resp_StatusCode = 400, resp_Header = [],
             resp_Body = Reader ''{\"ID\":\"200\",\"Name\":\"John\"}'' None\<rparr>
      else if c = 102 then
        Inr \<lparr>resp_StatusCode = 200, resp_Header = [(''X-Id'', [''7''])],
             resp_Body = Reader ''not json'' None\<rparr>
      else Inl (Error ''dial tcp: no network''))"

definition golib :: "go_value env" where
  "golib =
     \<lparr>json_Marshal = encoding_json_Marshal,
      json_Unmarshal = encoding_json_Unmarshal,
      query_Values = querystring_Values,
      Values_Encode = net_url_Encode,
      url_Parse = net_url_Parse,
      URL_String = net_url_String,
      validMethod = http_validMethod,
      CanonicalMIMEHeaderKey = textproto_CanonicalMIMEHeaderKey,
      growslice = runtime_growslice,
      client_Do = mockClient_Do\<rparr>"

text \<open>
  The same collaborators with one handler behind every client (the default client of
  \<open>New()\<close> included), as a server the requests go to: \<open>answering\<close> is \<open>fakeHandler\<close> of
  the tests without headers, and \<open>echo_url\<close> answers 200 with the URL it was asked for
  in the header \<open>X-Url\<close> and an empty body.
\<close>

definition served_by :: "(http_Request option \<Rightarrow> error + http_Response) \<Rightarrow> go_value env" where
  "served_by handler = golib\<lparr>client_Do := (\<lambda>c. handler)\<rparr>"


definition echo_url :: "http_Request option \<Rightarrow> error + http_Response" where
  "echo_url req =
     (case req of
        None \<Rightarrow> Inl (Error ''nil request'')
      | Some q \<Rightarrow>
          Inr \<lparr>resp_StatusCode = 200, resp_Header = [(''X-Url'', [net_url_String (req_URL q)])],
               resp_Body = Reader [] None\<rparr>)"

text \<open>The empty store. Address 0 is never allocated.\<close>

definition empty_store :: "go_value state" where
  "empty_store = \<lparr>requests = Map.empty, hmaps = (\<lambda>a. []), arrays = (\<lambda>a. []), objs = Map.empty, fresh = 1\<rparr>"

text \<open>
  A struct literal \<open>&Request{...}\<close>, as code inside the package can write it, and
  \<open>newMockRequest\<close> of the tests: \<open>&Request{client: c}\<close> with every other field zero.
\<close>

definition alloc_Request :: "'v Request \<Rightarrow> 'v state \<Rightarrow> addr \<times> 'v state" where
  "alloc_Request b s = (let r = fresh s in (r, s\<lparr>requests := (requests s)(r \<mapsto> b), fresh := r + 1\<rparr>))"

definition zero_Request :: "'v Request" where
  "zero_Request = \<lparr>client = None, method' = [], url = [], header = None,
                    query = Nil, body = Nil, Success = Nil, Failure = Nil\<rparr>"

definition newMockRequest :: "addr \<Rightarrow> 'v state \<Rightarrow> addr \<times> 'v state" where
  "newMockRequest c s = alloc_Request (zero_Request\<lparr>client := Some c\<rparr>) s"

text \<open>A caller's \<open>&T{...}\<close>: a new object and the pointer to it.\<close>

definition new_object :: "'v \<Rightarrow> 'v state \<Rightarrow> addr \<times> 'v state" where
  "new_object v s = (let p = fresh s in (p, s\<lparr>objs := (objs s)(p \<mapsto> v), fresh := p + 1\<rparr>))"

text \<open>Observations of a run that returned a builder: a field of it, and its headers.\<close>

definition field_of :: "('v Request \<Rightarrow> 'a) \<Rightarrow> (addr \<times> 'v state) outcome \<Rightarrow> 'a option" where
  "field_of f out = (case out of Panic \<Rightarrow> None | Ret (r, s) \<Rightarrow> map_option f (requests s r))"

definition headers_of :: "addr \<Rightarrow> 'v state \<Rightarrow> http_Header" where
  "headers_of r s = (case requests s r of None \<Rightarrow> [] | Some b \<Rightarrow> header_content s (header b))"

section \<open>Concrete runs\<close>

text \<open>Whether a call returned (rather than panicked).\<close>

fun returned :: "'a outcome \<Rightarrow> bool" where
  "returned Panic = False"
| "returned (Ret x) = True"

text \<open>
  \<open>&Request{client: c, url: "http://example.com", Success: succ, Failure: fail}\<close>, in a
  store whose one object, an empty struct, is at address 1; the builder is at address 2.
\<close>

definition mock_request :: "addr \<Rightarrow> go_value iface \<Rightarrow> go_value iface \<Rightarrow> addr \<times> go_value state" where
  "mock_request c succ fail =
     (case new_object (Struct []) empty_store of (p, s) \<Rightarrow>
        alloc_Request (zero_Request\<lparr>client := Some c, url := ''http://example.com'',
                                     Success := succ, Failure := fail\<rparr>) s)"


text \<open>\<open>New().AddHeader("A", "B").Get("http://example.com")\<close>.\<close>

definition header_run :: "(addr \<times> go_value state) outcome" where
  "header_run =
     andThen (Ret (request_New empty_store)) (\<lambda>(r, s).
     andThen (AddHeader golib r ''A'' ''B'' s) (\<lambda>(r, s).
     Get golib r ''http://example.com'' s))"

text \<open>\<open>New().Get("http://example.com?a=1")\<close>, with no query object.\<close>

definition embedded_query_run :: "(addr \<times> go_value state) outcome" where
  "embedded_query_run =
     andThen (Ret (request_New empty_store)) (\<lambda>(r, s). Get golib r ''http://example.com?a=1'' s)"



text \<open>
  \<open>f := &S{}; b := New().SetFailure(f); b2 := b.New()\<close>. The result is the source
  builder, the derived builder and the store.
\<close>

definition derive_run :: "(addr \<times> addr \<times> go_value state) outcome" where
  "derive_run =
     (case new_object (Struct []) empty_store of (f, s) \<Rightarrow>
        andThen (Ret (request_New s)) (\<lambda>(b, s).
        andThen (SetFailure b (Ref f) s) (\<lambda>(b, s).
        andThen (New b s) (\<lambda>(b2, s). Ret (b, b2, s)))))"

text \<open>
  \<open>b1 := New().AddHeader("A", "1").AddHeader("A", "2").AddHeader("A", "3")\<close>, then
  \<open>b2 := b1.New()\<close> and \<open>b1.AddHeader("A", "y")\<close>; and after that \<open>b2.AddHeader("A", "x")\<close>.
\<close>

definition shared_slice_before :: "(addr \<times> addr \<times> go_value state) outcome" where
  "shared_slice_before =
     andThen (Ret (request_New empty_store)) (\<lambda>(b1, s).
     andThen (AddHeader golib b1 ''A'' ''1'' s) (\<lambda>(b1, s).
     andThen (AddHeader golib b1 ''A'' ''2'' s) (\<lambda>(b1, s).
     andThen (AddHeader golib b1 ''A'' ''3'' s) (\<lambda>(b1, s).
     andThen (New b1 s) (\<lambda>(b2, s).
     andThen (AddHeader golib b1 ''A'' ''y'' s) (\<lambda>(b1, s). Ret (b1, b2, s)))))))"

definition shared_slice_after :: "(addr \<times> addr \<times> go_value state) outcome" where
  "shared_slice_after =
     andThen shared_slice_before (\<lambda>(b1, b2, s).
     andThen (AddHeader golib b2 ''A'' ''x'' s) (\<lambda>(b2, s). Ret (b1, b2, s)))"

text \<open>\<open>New()\<close>, before and after \<open>Get("http://example.com")\<close>.\<close>

definition fresh_builder :: "(addr \<times> go_value state) outcome" where
  "fresh_builder = Ret (request_New empty_store)"

definition after_Get :: "(addr \<times> go_value state) outcome" where
  "after_Get = andThen fresh_builder (\<lambda>(r, s). Get golib r ''http://example.com'' s)"

text \<open>
  \<open>New().SetQuery("q").Get("http://example.com?a=1")\<close>: the query object is a string,
  which \<open>query.Values\<close> refuses.
\<close>

definition bad_query_run :: "(addr \<times> go_value state) outcome" where
  "bad_query_run =
     andThen (Ret (request_New empty_store)) (\<lambda>(r, s).
     andThen (SetQuery r (Val (Str ''q'')) s) (\<lambda>(r, s).
     Get golib r ''http://example.com?a=1'' s))"

text \<open>
  \<open>New().SetBody(make(chan int)).SetQuery("q").Get("http://example.com")\<close>: neither the
  query object nor the body has an encoding.
\<close>

definition chan_body_run :: "(addr \<times> go_value state) outcome" where
  "chan_body_run =
     andThen (Ret (request_New empty_store)) (\<lambda>(r, s).
     andThen (SetBody r (Val Chan) s) (\<lambda>(r, s).
     andThen (SetQuery r (Val (Str ''q'')) s) (\<lambda>(r, s).
     Get golib r ''http://example.com'' s)))"

text \<open>\<open>new(Request).SetQuery("q")\<close>: a builder that has no client.\<close>

definition no_client_run :: "(addr \<times> go_value state) outcome" where
  "no_client_run =
     andThen (Ret (alloc_Request zero_Request empty_store)) (\<lambda>(r, s).
     SetQuery r (Val (Str ''q'')) s)"



text \<open>The descriptor of a GET of \<open>http://example.com\<close>.\<close>

definition example_request :: http_Request where
  "example_request =
     \<lparr>req_Method = ''GET'',
      req_URL = \<lparr>Prefix = ''http://example.com'', ForceQuery = False, RawQuery = [], Fragment = []\<rparr>,
      req_Header = [], req_Body = None\<rparr>"

text \<open>The document the transports at 100 and 101 answer with, and what it decodes to.\<close>

definition john_json :: bytes where
  "john_json = ''{\"ID\":\"200\",\"Name\":\"John\"}''"

definition john :: go_value where
  "john = Struct [(''ID'', ''200''), (''Name'', ''John'')]"

section \<open>Facts about the operations\<close>

subsection \<open>What \<open>Request()\<close> returns\<close>

lemma Request_keeps_store:
  "Request L r s = Ret (res, s') \<Longrightarrow> s' = s"
  by (auto simp: Request_def with_receiver_def split: option.splits sum.splits if_splits prod.splits)


text \<open>
  With a body, the error of \<open>http.NewRequest\<close> lands in the shadowing \<open>err\<close>: the call
  goes on with a \<open>nil\<close> request, and panics unless the query fails to encode.
\<close>

lemma Request_base_error_with_body:
  assumes "requests s r = Some b" "body b \<noteq> Nil"
    and "json_Marshal L (body b) s = Inr buff"
    and "http_NewRequest L (method' b) (url b) (Some buff) = Inl e"
  shows "Request L r s =
           (case query_Values L (query b) s of
              Inl e' \<Rightarrow> Ret ((None, None), s)
            | Inr v \<Rightarrow> Panic)"
  using assms by (simp add: Request_def with_receiver_def split: sum.splits)

text \<open>No descriptor that \<open>Request()\<close> returns has a header.\<close>

lemma Request_header_empty:
  assumes "Request L r s = Ret ((Some req, err), s')"
  shows "req_Header req = []"
  using assms
  by (auto simp: Request_def with_receiver_def http_NewRequest_def Let_def
      split: option.splits sum.splits if_splits)

text \<open>Whenever the query encodes, the descriptor's query is that encoding.\<close>

lemma Request_query_overwritten:
  assumes "requests s r = Some b" "query_Values L (query b) s = Inr v"
    and "Request L r s = Ret ((Some req, err), s')"
  shows "RawQuery (req_URL req) = Values_Encode L v"
  using assms
  by (auto simp: Request_def with_receiver_def split: option.splits sum.splits if_splits)

subsection \<open>What \<open>do\<close> and \<open>Execute\<close> change\<close>

lemma decodeResp_success:
  assumes "requests s r = Some b" "200 \<le> StatusCode resp" "StatusCode resp \<le> 299" "Success b \<noteq> Nil"
    and "json_Unmarshal L bodyBytes (Success b) s = (err, v, s')"
  shows "decodeResp L r resp bodyBytes s = Ret ((resp\<lparr>Response_Success := v\<rparr>, err), s')"
  using assms by (auto simp: decodeResp_def with_receiver_def Let_def)

lemma decodeResp_failure:
  assumes "requests s r = Some b" "\<not> (200 \<le> StatusCode resp \<and> StatusCode resp \<le> 299)" "Failure b \<noteq> Nil"
    and "json_Unmarshal L bodyBytes (Failure b) s = (err, v, s')"
  shows "decodeResp L r resp bodyBytes s = Ret ((resp\<lparr>Response_Failure := v\<rparr>, err), s')"
  using assms by (auto simp: decodeResp_def with_receiver_def Let_def)

lemma decodeResp_no_shape:
  assumes "requests s r = Some b"
    and "(if 200 \<le> StatusCode resp \<and> StatusCode resp \<le> 299 then Success b else Failure b) = Nil"
  shows "decodeResp L r resp bodyBytes s = Ret ((resp, None), s)"
  using assms by (auto simp: decodeResp_def with_receiver_def Let_def split: if_splits)


text \<open>Once the transport has replied and the body is read, \<open>do\<close> is the decode step.\<close>

lemma do_inner:
  assumes b: "requests s r = Some b" and c: "client b = Some c"
    and reply: "client_Do L c req = Inr reply"
    and read: "ioutil_ReadAll (resp_Body reply) = Inr bodyBytes"
  shows "do' L r req s =
     andThen (decodeResp L r \<lparr>StatusCode = resp_StatusCode reply, Header = resp_Header reply,
                               Response_Success = Nil, Response_Failure = Nil\<rparr> bodyBytes s)
       (\<lambda>((response', err), s'). Ret ((Some response', map_option decode_error err), s'))"
  using b c reply read by (simp add: do'_def with_receiver_def)

text \<open>
  With a client, \<open>do\<close> is what the client's answer to this very descriptor makes it:
  the transport error, the read error, or the decode step on the reply.
\<close>

lemma do_submits:
  assumes b: "requests s r = Some b" and c: "client b = Some c"
  shows "do' L r req s =
     (case client_Do L c req of
        Inl e \<Rightarrow> Ret ((None, Some e), s)
      | Inr reply \<Rightarrow>
          (case ioutil_ReadAll (resp_Body reply) of
             Inl e \<Rightarrow> Ret ((None, Some e), s)
           | Inr bodyBytes \<Rightarrow>
               andThen (decodeResp L r \<lparr>StatusCode = resp_StatusCode reply, Header = resp_Header reply,
                                         Response_Success = Nil, Response_Failure = Nil\<rparr> bodyBytes s)
                 (\<lambda>((response', err), s'). Ret ((Some response', map_option decode_error err), s'))))"
  using b c by (simp add: do'_def with_receiver_def Let_def cong: sum.case_cong)


text \<open>\<open>Execute\<close> hands to \<open>do\<close> the descriptor that \<open>Request()\<close> returned without error.\<close>

lemma Execute_after_Request:
  "Request L r s = Ret ((req, None), s') \<Longrightarrow> Execute L r s = do' L r req s'"
  by (simp add: Execute_def sendRequest_def)



subsection \<open>The error of the query encoding\<close>

text \<open>
  Which error \<open>query.Values\<close> fails with makes no difference to what \<open>Request()\<close> and
  \<open>Execute()\<close> do.
\<close>

lemma NewRequest_without_query_Values:
  "http_NewRequest (L\<lparr>query_Values := f\<rparr>) m a b = http_NewRequest L m a b"
  by (simp add: http_NewRequest_def Let_def cong: sum.case_cong if_cong)

lemma decodeResp_without_query_Values:
  "decodeResp (L\<lparr>query_Values := f\<rparr>) r resp bs s = decodeResp L r resp bs s"
  by (simp add: decodeResp_def with_receiver_def Let_def
      cong: option.case_cong prod.case_cong if_cong)

lemma do_without_query_Values:
  "do' (L\<lparr>query_Values := f\<rparr>) r req s = do' L r req s"
  by (simp add: do'_def decodeResp_without_query_Values
      cong: option.case_cong sum.case_cong)

lemma Request_ignores_query_error:
  assumes "requests s r = Some b" "query_Values L (query b) s = Inl e"
  shows "Request (L\<lparr>query_Values := (\<lambda>x os. Inl e')\<rparr>) r s = Request L r s"
  using assms
  by (simp add: Request_def with_receiver_def NewRequest_without_query_Values
      cong: option.case_cong sum.case_cong if_cong)

lemma Execute_ignores_query_error:
  assumes "requests s r = Some b" "query_Values L (query b) s = Inl e"
  shows "Execute (L\<lparr>query_Values := (\<lambda>x os. Inl e')\<rparr>) r s = Execute L r s"
  using Request_ignores_query_error [OF assms, of e']
  by (simp add: Execute_def sendRequest_def do_without_query_Values
      cong: option.case_cong prod.case_cong)

subsection \<open>What \<open>New\<close> copies\<close>

text \<open>
  The derived builder is a new struct with a new header map; every other field,
  the result shapes included, is the source's field as it is.
\<close>

lemma New_copies_fields:
  assumes "requests s r = Some b"
  shows "\<exists>s'. New r s = Ret (fresh s + 1, s')
              \<and> requests s' (fresh s + 1) = Some (b\<lparr>header := Some (fresh s)\<rparr>)"
  using assms by (simp add: New_def with_receiver_def Let_def)

subsection \<open>The concrete stores and collaborators\<close>

lemma mock_request_store:
  "mock_request c succ fail =
     (2, \<lparr>requests = [2 \<mapsto> \<lparr>client = Some c, method' = [], url = ''http://example.com'', header = None,
                               query = Nil, body = Nil, Success = succ, Failure = fail\<rparr>],
          hmaps = (\<lambda>a. []), arrays = (\<lambda>a. []), objs = [1 \<mapsto> Struct []], fresh = 3\<rparr>)"
  by (simp add: mock_request_def new_object_def alloc_Request_def zero_Request_def empty_store_def
      Let_def numeral_2_eq_2 numeral_3_eq_3)

lemma request_New_store:
  "request_New empty_store =
     (3, \<lparr>requests = [3 \<mapsto> \<lparr>client = Some 1, method' = ''GET'', url = [], header = Some 2,
                               query = Nil, body = Nil, Success = Nil, Failure = Nil\<rparr>],
          hmaps = (\<lambda>a. []), arrays = (\<lambda>a. []), objs = Map.empty, fresh = 4\<rparr>)"
  by (simp add: request_New_def empty_store_def Let_def numeral_2_eq_2 numeral_3_eq_3 fun_eq_iff)

lemma Unmarshal_john:
  "json_Unmarshal golib john_json (Ref a) s = (None, Ref a, s\<lparr>objs := (objs s)(a \<mapsto> john)\<rparr>)"
  by (simp add: golib_def encoding_json_Unmarshal_def documents_def john_json_def john_def)

lemma Unmarshal_not_json:
  "json_Unmarshal golib ''not json'' x s = (Some (syntax_error ''not json''), x, s)"
  by (simp add: golib_def encoding_json_Unmarshal_def documents_def)


lemma Do_100:
  "client_Do golib 100 req = Inr \<lparr>resp_StatusCode = 200, resp_Header = [(''X-Id'', [''7''])],
                                  resp_Body = Reader john_json None\<rparr>"
  by (simp add: golib_def mockClient_Do_def john_json_def)

lemma Do_101:
  "client_Do golib 101 req = Inr \<lparr>resp_StatusCode = 400, resp_Header = [],
                                  resp_Body = Reader john_json None\<rparr>"
  by (simp add: golib_def mockClient_Do_def john_json_def)

lemma Do_102:
  "client_Do golib 102 req = Inr \<lparr>resp_StatusCode = 200, resp_Header = [(''X-Id'', [''7''])],
                                  resp_Body = Reader ''not json'' None\<rparr>"
  by (simp add: golib_def mockClient_Do_def)

lemma Request_example:
  "Request golib 2 (snd (mock_request c succ fail)) =
     Ret ((Some example_request, None), snd (mock_request c succ fail))"
  by (simp add: Request_def with_receiver_def mock_request_store golib_def http_NewRequest_def
      http_validMethod_def isTokenByte_def net_url_Parse_def isCTL_def querystring_Values_def
      net_url_Encode_def example_request_def)

text \<open>The tests' own expectations of header keys (TestAddHeader) hold of the stand-in.\<close>

lemma canonical_keys:
  "textproto_CanonicalMIMEHeaderKey ''content-tYPE'' = ''Content-Type''"
  "textproto_CanonicalMIMEHeaderKey ''User-AGENT'' = ''User-Agent''"
  "textproto_CanonicalMIMEHeaderKey ''a'' = ''A''"
  by code_simp+

section \<open>The package's tests\<close>

text \<open>
  The tests of the package, run on the model: TestSetQuery, the two derived cases of
  TestAddHeader, TestSuccess, TestFailure and TestSetBody give what the tests expect.
\<close>

lemma TestSetQuery:
  "(case new_object (Struct [(''id'', ''20''), (''name'', ''John'')]) empty_store of (q, s) \<Rightarrow>
      andThen (Ret (request_New s)) (\<lambda>(r, s).
      andThen (SetQuery r (Ref q) s) (\<lambda>(r, s).
      andThen (Get golib r ''http://example.com'' s) (\<lambda>(r, s).
      andThen (Request golib r s) (\<lambda>((req, err), s).
        Ret (map_option (\<lambda>q. net_url_String (req_URL q)) req, err))))))
   = Ret (Some ''http://example.com?id=20&name=John'', None)"
  by code_simp

lemma TestAddHeader:
  "andThen (Ret (request_New empty_store)) (\<lambda>(r, s).
   andThen (AddHeader golib r ''A'' ''B'' s) (\<lambda>(r, s).
   andThen (AddHeader golib r ''a'' ''c'' s) (\<lambda>(r, s).
   andThen (New r s) (\<lambda>(r2, s). Ret (headers_of r2 s)))))
   = Ret [(''A'', [''B'', ''c''])]"
  "andThen (Ret (request_New empty_store)) (\<lambda>(r, s).
   andThen (AddHeader golib r ''A'' ''B'' s) (\<lambda>(r, s).
   andThen (New r s) (\<lambda>(r2, s).
   andThen (AddHeader golib r2 ''a'' ''c'' s) (\<lambda>(r2, s). Ret (headers_of r2 s)))))
   = Ret [(''A'', [''B'', ''c''])]"
  by code_simp+

lemma TestSuccess:
  "(case new_object (Struct []) empty_store of (p, s) \<Rightarrow>
      andThen (Ret (newMockRequest 100 s)) (\<lambda>(r, s).
      andThen (Get golib r ''http://example.com'' s) (\<lambda>(r, s).
      andThen (SetSuccess r (Ref p) s) (\<lambda>(r, s).
      andThen (Execute golib r s) (\<lambda>((resp, err), s).
        Ret (map_option StatusCode resp, map_option Response_Failure resp,
             map_option Response_Success resp, objs s p, err))))))
   = Ret (Some 200, Some Nil, Some (Ref 1), Some john, None)"
  by code_simp

lemma TestFailure:
  "(case new_object (Struct []) empty_store of (p, s) \<Rightarrow>
      andThen (Ret (newMockRequest 101 s)) (\<lambda>(r, s).
      andThen (Get golib r ''http://example.com'' s) (\<lambda>(r, s).
      andThen (SetFailure r (Ref p) s) (\<lambda>(r, s).
      andThen (Execute golib r s) (\<lambda>((resp, err), s).
        Ret (map_option StatusCode resp, map_option Response_Success resp,
             map_option Response_Failure resp, objs s p, err))))))
   = Ret (Some 400, Some Nil, Some (Ref 1), Some john, None)"
  by code_simp

lemma TestSetBody:
  "(case new_object (Struct [(''ID'', ''10''), (''Name'', ''Bob'')]) empty_store of (p, s) \<Rightarrow>
      andThen (Ret (request_New s)) (\<lambda>(r, s).
      andThen (SetBody r (Ref p) s) (\<lambda>(r, s).
      andThen (Request golib r s) (\<lambda>((req, err), s).
        Ret (map_option req_Body req, err, encoding_json_Marshal (Ref p) s)))))
   = Ret (Some (Some ''{\"ID\":\"10\",\"Name\":\"Bob\"}''), None,
          Inr ''{\"ID\":\"10\",\"Name\":\"Bob\"}'')"
  by code_simp

section \<open>The claims\<close>

subsection \<open>C1: headers on the outgoing request\<close>

text \<open>
  Claim C1 says that the descriptor \<open>Request()\<close> produces, which \<open>Execute()\<close> submits,
  carries every header stored with \<open>AddHeader\<close> and \<open>SetHeader\<close>. The code never copies
  \<open>r.header\<close> to the descriptor. After \<open>New().AddHeader("A", "B").Get("http://example.com")\<close>
  the builder holds \<open>A: [B]\<close>, and the descriptor \<open>Request()\<close> returns has no header at all.
\<close>

theorem headers_not_attached:
  "andThen header_run (\<lambda>(r, s).
     andThen (Request golib r s) (\<lambda>((req, err), s').
       Ret (headers_of r s', map_option req_Header req, err)))
   = Ret ([(''A'', [''B''])], Some [], None)"
  by code_simp

subsection \<open>C2: the query component\<close>

text \<open>
  Claim C2 says that with no query object set the URL is left as stored, embedded query
  included. The code calls \<open>query.Values(r.query)\<close> whether or not a query object is
  set; for \<open>nil\<close> that returns empty values and no error, so \<open>RawQuery\<close> is overwritten
  with the empty string. After \<open>New().Get("http://example.com?a=1")\<close> the stored URL has
  the query \<open>a=1\<close>, and the URL of the descriptor is \<open>http://example.com\<close>.
\<close>

theorem embedded_query_dropped:
  "andThen embedded_query_run (\<lambda>(r, s).
     andThen (Request golib r s) (\<lambda>((req, err), s').
       Ret (map_option query (requests s r), map_option url (requests s r),
            map_option (\<lambda>q. net_url_String (req_URL q)) req, err)))
   = Ret (Some Nil, Some ''http://example.com?a=1'', Some ''http://example.com'', None)"
  by code_simp

subsection \<open>C3: a descriptor that cannot be built\<close>




subsection \<open>C4: result shapes of a derived builder\<close>

text \<open>
  Claim C4 says that the result-shape slots of \<open>b.New()\<close> do not hold the references
  that \<open>b\<close>'s slots hold. \<open>New\<close> copies \<open>r.Success\<close> and \<open>r.Failure\<close> as they are. With
  \<open>f := &S{}\<close> and \<open>b := New().SetFailure(f)\<close>, the builders \<open>b\<close> and \<open>b.New()\<close> are two
  structs with two header maps, and both hold the pointer \<open>f\<close> (address 1) as \<open>Failure\<close>.
\<close>

theorem derived_shares_shapes:
  "andThen derive_run (\<lambda>(b, b2, s).
     Ret (b = b2, map_option header (requests s b) = map_option header (requests s b2),
          map_option Failure (requests s b), map_option Failure (requests s b2)))
   = Ret (False, False, Some (Ref 1), Some (Ref 1))"
  by code_simp

subsection \<open>C5: decoding by status class\<close>

text \<open>
  Claim C5. For an execution that reaches decoding (the transport replied and the
  body was read): with a status in [200, 299] and a success shape declared, the body
  is unmarshalled into \<open>Response.Success\<close> and \<open>Response.Failure\<close> stays unset; with a
  status outside [200, 299] and a failure shape declared, the body is unmarshalled
  into \<open>Response.Failure\<close> and \<open>Response.Success\<close> stays unset; with no shape declared
  for the status class, nothing is decoded, both slots stay unset, the error is \<open>nil\<close>
  and the store is as before. In the two decoding cases the slot holds what
  \<open>json.Unmarshal\<close> left in it, the error is the decode error of \<open>do\<close> when \<open>Unmarshal\<close>
  failed, and the store is the one \<open>Unmarshal\<close> left.
\<close>

theorem decode_dispatch:
  assumes b: "requests s r = Some b" and c: "client b = Some c"
    and reply: "client_Do L c req = Inr reply"
    and read: "ioutil_ReadAll (resp_Body reply) = Inr bodyBytes"
  shows
    "(200 \<le> resp_StatusCode reply \<and> resp_StatusCode reply \<le> 299 \<and> Success b \<noteq> Nil \<longrightarrow>
        (\<forall>err v s'. json_Unmarshal L bodyBytes (Success b) s = (err, v, s') \<longrightarrow>
           do' L r req s =
             Ret ((Some \<lparr>StatusCode = resp_StatusCode reply, Header = resp_Header reply,
                         Response_Success = v, Response_Failure = Nil\<rparr>,
                   map_option decode_error err), s')))
     \<and> (\<not> (200 \<le> resp_StatusCode reply \<and> resp_StatusCode reply \<le> 299) \<and> Failure b \<noteq> Nil \<longrightarrow>
        (\<forall>err v s'. json_Unmarshal L bodyBytes (Failure b) s = (err, v, s') \<longrightarrow>
           do' L r req s =
             Ret ((Some \<lparr>StatusCode = resp_StatusCode reply, Header = resp_Header reply,
                         Response_Success = Nil, Response_Failure = v\<rparr>,
                   map_option decode_error err), s')))
     \<and> ((if 200 \<le> resp_StatusCode reply \<and> resp_StatusCode reply \<le> 299 then Success b else Failure b) = Nil \<longrightarrow>
           do' L r req s =
             Ret ((Some \<lparr>StatusCode = resp_StatusCode reply, Header = resp_Header reply,
                         Response_Success = Nil, Response_Failure = Nil\<rparr>, None), s))"
proof -
  let ?response = "\<lparr>StatusCode = resp_StatusCode reply, Header = resp_Header reply,
                     Response_Success = Nil, Response_Failure = Nil\<rparr> :: 'a Response"
  note inner = do_inner [OF b c reply read]
  have one: "do' L r req s = Ret ((Some (?response\<lparr>Response_Success := v\<rparr>), map_option decode_error err), s')"
    if "200 \<le> resp_StatusCode reply" "resp_StatusCode reply \<le> 299" "Success b \<noteq> Nil"
      and "json_Unmarshal L bodyBytes (Success b) s = (err, v, s')" for err v s' 
    using inner decodeResp_success [of s r b ?response L bodyBytes err v s'] b that by simp
  have two: "do' L r req s = Ret ((Some (?response\<lparr>Response_Failure := v\<rparr>), map_option decode_error err), s')"
    if "\<not> (200 \<le> resp_StatusCode reply \<and> resp_StatusCode reply \<le> 299)" "Failure b \<noteq> Nil"
      and "json_Unmarshal L bodyBytes (Failure b) s = (err, v, s')" for err v s' 
    using inner decodeResp_failure [of s r b ?response L bodyBytes err v s'] b that by simp
  have three: "do' L r req s = Ret ((Some ?response, None), s)"
    if "(if 200 \<le> resp_StatusCode reply \<and> resp_StatusCode reply \<le> 299 then Success b else Failure b) = Nil"
    using inner decodeResp_no_shape [of s r b ?response L bodyBytes] b that by simp
  from one two three show ?thesis by simp
qed

text \<open>
  The three cases on the tests' transports: 200 with a success shape (TestSuccess), 400
  with a failure shape (TestFailure), and 400 with a success shape only.
\<close>

theorem decode_dispatch_witness:
  "(let s = snd (mock_request 100 (Ref 1) Nil) in
      do' golib 2 (Some example_request) s =
        Ret ((Some \<lparr>StatusCode = 200, Header = [(''X-Id'', [''7''])],
                    Response_Success = Ref 1, Response_Failure = Nil\<rparr>, None),
             s\<lparr>objs := (objs s)(1 \<mapsto> john)\<rparr>))
   \<and> (let s = snd (mock_request 101 Nil (Ref 1)) in
      do' golib 2 (Some example_request) s =
        Ret ((Some \<lparr>StatusCode = 400, Header = [],
                    Response_Success = Nil, Response_Failure = Ref 1\<rparr>, None),
             s\<lparr>objs := (objs s)(1 \<mapsto> john)\<rparr>))
   \<and> (let s = snd (mock_request 101 (Ref 1) Nil) in
      do' golib 2 (Some example_request) s =
        Ret ((Some \<lparr>StatusCode = 400, Header = [],
                    Response_Success = Nil, Response_Failure = Nil\<rparr>, None), s))"
proof -
  let ?s1 = "snd (mock_request 100 (Ref 1) Nil)"
  have b1: "requests ?s1 2 = Some \<lparr>client = Some 100, method' = [], url = ''http://example.com'',
      header = None, query = Nil, body = Nil, Success = Ref 1, Failure = Nil\<rparr>"
    by (simp add: mock_request_store)
  have r1: "do' golib 2 (Some example_request) ?s1 =
        Ret ((Some \<lparr>StatusCode = 200, Header = [(''X-Id'', [''7''])],
                    Response_Success = Ref 1, Response_Failure = Nil\<rparr>, None),
             ?s1\<lparr>objs := (objs ?s1)(1 \<mapsto> john)\<rparr>)"
    using decode_dispatch [OF b1 _ Do_100, of john_json "Some example_request"] Unmarshal_john [of 1 ?s1]
    by simp
  let ?s2 = "snd (mock_request 101 Nil (Ref 1))"
  have b2: "requests ?s2 2 = Some \<lparr>client = Some 101, method' = [], url = ''http://example.com'',
      header = None, query = Nil, body = Nil, Success = Nil, Failure = Ref 1\<rparr>"
    by (simp add: mock_request_store)
  have r2: "do' golib 2 (Some example_request) ?s2 =
        Ret ((Some \<lparr>StatusCode = 400, Header = [],
                    Response_Success = Nil, Response_Failure = Ref 1\<rparr>, None),
             ?s2\<lparr>objs := (objs ?s2)(1 \<mapsto> john)\<rparr>)"
    using decode_dispatch [OF b2 _ Do_101, of john_json "Some example_request"] Unmarshal_john [of 1 ?s2]
    by simp
  let ?s3 = "snd (mock_request 101 (Ref 1) Nil)"
  have b3: "requests ?s3 2 = Some \<lparr>client = Some 101, method' = [], url = ''http://example.com'',
      header = None, query = Nil, body = Nil, Success = Ref 1, Failure = Nil\<rparr>"
    by (simp add: mock_request_store)
  have r3: "do' golib 2 (Some example_request) ?s3 =
        Ret ((Some \<lparr>StatusCode = 400, Header = [],
                    Response_Success = Nil, Response_Failure = Nil\<rparr>, None), ?s3)"
    using decode_dispatch [OF b3 _ Do_101, of john_json "Some example_request"]
    by simp
  from r1 r2 r3 show ?thesis by (simp add: Let_def)
qed

subsection \<open>C6: a body that does not decode\<close>

text \<open>
  Claim C6. When \<open>Execute()\<close> gets a reply from the transport, the body is read, and
  unmarshalling it into the shape declared for the status class fails with \<open>e\<close>, then
  \<open>Execute()\<close> returns a non-nil \<open>Response\<close> whose \<open>StatusCode\<close> and \<open>Header\<close> are the
  reply's, together with the error whose message is the fixed prefix
  \<open>failed to decode API response: \<close> followed by the message of \<open>e\<close>.
\<close>

theorem decode_failure_keeps_response:
  assumes b: "requests s r = Some b" and c: "client b = Some c"
    and req: "Request L r s = Ret ((req, None), s0)"
    and reply: "client_Do L c req = Inr reply"
    and read: "ioutil_ReadAll (resp_Body reply) = Inr bodyBytes"
    and shape: "shape = (if 200 \<le> resp_StatusCode reply \<and> resp_StatusCode reply \<le> 299
                         then Success b else Failure b)"
    and declared: "shape \<noteq> Nil"
    and fails: "json_Unmarshal L bodyBytes shape s = (Some e, v, s')"
  shows "\<exists>response.
           Execute L r s =
             Ret ((Some response, Some (Error (''failed to decode API response: '' @ Error_msg e))), s')
           \<and> StatusCode response = resp_StatusCode reply
           \<and> Header response = resp_Header reply"
proof -
  let ?response = "\<lparr>StatusCode = resp_StatusCode reply, Header = resp_Header reply,
                     Response_Success = Nil, Response_Failure = Nil\<rparr> :: 'a Response"
  from req have "s0 = s" by (rule Request_keeps_store)
  with req have exec: "Execute L r s = do' L r req s" by (simp add: Execute_after_Request)
  note inner = do_inner [OF b c reply read]
  show ?thesis
  proof (cases "200 \<le> resp_StatusCode reply \<and> resp_StatusCode reply \<le> 299")
    case True
    with shape declared fails
    have "decodeResp L r ?response bodyBytes s =
            Ret ((?response\<lparr>Response_Success := v\<rparr>, Some e), s')"
      using decodeResp_success [of s r b ?response L bodyBytes "Some e" v s'] b by simp
    with exec inner show ?thesis by (simp add: decode_error_def)
  next
    case False
    with shape declared fails
    have "decodeResp L r ?response bodyBytes s =
            Ret ((?response\<lparr>Response_Failure := v\<rparr>, Some e), s')"
      using decodeResp_failure [of s r b ?response L bodyBytes "Some e" v s'] b by simp
    with exec inner show ?thesis by (simp add: decode_error_def)
  qed
qed

text \<open>The transport at 102 answers 200 with \<open>not json\<close>, and a success shape is declared.\<close>

theorem decode_failure_keeps_response_witness:
  "let s = snd (mock_request 102 (Ref 1) Nil) in
     \<exists>response.
       Execute golib 2 s =
         Ret ((Some response,
               Some (Error ''failed to decode API response: invalid character 'o' in literal null (expecting 'u')'')),
              s)
       \<and> StatusCode response = 200 \<and> Header response = [(''X-Id'', [''7''])]"
proof -
  let ?s = "snd (mock_request 102 (Ref 1) Nil)"
  have b: "requests ?s 2 = Some \<lparr>client = Some 102, method' = [], url = ''http://example.com'',
      header = None, query = Nil, body = Nil, Success = Ref 1, Failure = Nil\<rparr>"
    by (simp add: mock_request_store)
  from decode_failure_keeps_response [OF b _ Request_example Do_102 _ _ _ Unmarshal_not_json, of "Ref 1"]
  show ?thesis
    by (simp add: Let_def mock_request_store syntax_error_def syntax_errors_def)
qed

subsection \<open>C7: headers of a derived builder\<close>

text \<open>
  Claim C7 says that after \<open>b2 := b1.New()\<close> no \<open>AddHeader\<close> on \<open>b2\<close> changes what \<open>b1\<close>'s
  headers hold. \<open>New\<close> copies the slice headers of the map, not the arrays behind them.
  With three values under \<open>A\<close> the slice has length 3 and capacity 4. After
  \<open>b2 := b1.New()\<close> and \<open>b1.AddHeader("A", "y")\<close>, \<open>b1\<close> holds \<open>A: [1, 2, 3, y]\<close>; then
  \<open>b2.AddHeader("A", "x")\<close> appends at index 3 of the same array, and \<open>b1\<close> holds
  \<open>A: [1, 2, 3, x]\<close>.
\<close>

theorem derived_shares_slices:
  "andThen shared_slice_before (\<lambda>(b1, b2, s). Ret (headers_of b1 s, headers_of b2 s))
     = Ret ([(''A'', [''1'', ''2'', ''3'', ''y''])], [(''A'', [''1'', ''2'', ''3''])])
   \<and> andThen shared_slice_after (\<lambda>(b1, b2, s). Ret (headers_of b1 s, headers_of b2 s))
     = Ret ([(''A'', [''1'', ''2'', ''3'', ''x''])], [(''A'', [''1'', ''2'', ''3'', ''x''])])"
  by code_simp

subsection \<open>C8: a query object that does not encode\<close>

text \<open>
  Claim C8 says that for every builder whose query object fails to encode, \<open>Request()\<close>
  still returns a request with a \<open>nil\<close> error and \<open>Execute()\<close> still sends it. The query
  is encoded after the base descriptor is built, and sending needs a client:
  after \<open>New().SetBody(make(chan int)).SetQuery("q").Get("http://example.com")\<close> the
  query fails to encode and \<open>Request()\<close> returns no request and the error of
  \<open>json.Marshal\<close>; and on \<open>new(Request).SetQuery("q")\<close>, which has no client,
  \<open>Request()\<close> returns a request and \<open>Execute()\<close> panics.
\<close>

theorem query_error_not_alone:
  "andThen chan_body_run (\<lambda>(r, s).
     andThen (Request golib r s) (\<lambda>(res, s').
       Ret (map_option (\<lambda>b. query_Values golib (query b) s) (requests s r), res)))
     = Ret (Some (Inl (Error ''query: Values() expects struct input. Got string'')),
            None, Some (Error ''json: unsupported type: chan int''))
   \<and> andThen no_client_run (\<lambda>(r, s).
     andThen (Request golib r s) (\<lambda>((req, err), s').
       Ret (map_option (\<lambda>b. query_Values golib (query b) s) (requests s r), req \<noteq> None, err)))
     = Ret (Some (Inl (Error ''query: Values() expects struct input. Got string'')), True, None)
   \<and> andThen no_client_run (\<lambda>(r, s). andThen (Execute golib r s) (\<lambda>(res, s'). Ret res)) = Panic"
  by code_simp

text \<open>
  Claim C8, amended. For every builder whose query object fails to encode, the
  encoding error is never surfaced: \<open>Request()\<close> and \<open>Execute()\<close> do the same whatever
  that error is. When moreover the base descriptor is built (no body object, or one
  that marshals, and \<open>http.NewRequest\<close> succeeds), \<open>Request()\<close> returns that descriptor,
  untouched, with a \<open>nil\<close> error; and when the builder has a client, \<open>Execute()\<close> submits
  that descriptor to the client and goes on with the client's answer: the transport
  error, the read error, or the decoding of the reply.
\<close>

theorem query_error_swallowed:
  assumes b: "requests s r = Some b"
    and q: "query_Values L (query b) s = Inl e"
  shows "(\<forall>e'. Request (L\<lparr>query_Values := (\<lambda>x t. Inl e')\<rparr>) r s = Request L r s
              \<and> Execute (L\<lparr>query_Values := (\<lambda>x t. Inl e')\<rparr>) r s = Execute L r s)
       \<and> (\<forall>buff bs req.
            (body b = Nil \<and> buff = None
             \<or> body b \<noteq> Nil \<and> json_Marshal L (body b) s = Inr bs \<and> buff = Some bs) \<longrightarrow>
            http_NewRequest L (method' b) (url b) buff = Inr req \<longrightarrow>
              Request L r s = Ret ((Some req, None), s)
              \<and> (\<forall>c. client b = Some c \<longrightarrow>
                   Execute L r s =
                     (case client_Do L c (Some req) of
                        Inl e' \<Rightarrow> Ret ((None, Some e'), s)
                      | Inr reply \<Rightarrow>
                          (case ioutil_ReadAll (resp_Body reply) of
                             Inl e' \<Rightarrow> Ret ((None, Some e'), s)
                           | Inr bodyBytes \<Rightarrow>
                               andThen (decodeResp L r
                                          \<lparr>StatusCode = resp_StatusCode reply, Header = resp_Header reply,
                                           Response_Success = Nil, Response_Failure = Nil\<rparr> bodyBytes s)
                                 (\<lambda>((response, err), s').
                                    Ret ((Some response, map_option decode_error err), s'))))))"
proof -
  have built: "Request L r s = Ret ((Some req, None), s)"
    if buff: "body b = Nil \<and> buff = None
               \<or> body b \<noteq> Nil \<and> json_Marshal L (body b) s = Inr bs \<and> buff = Some bs"
      and base: "http_NewRequest L (method' b) (url b) buff = Inr req" for buff bs req
    using buff
  proof
    assume "body b = Nil \<and> buff = None"
    with b q base show ?thesis by (simp add: Request_def with_receiver_def)
  next
    assume "body b \<noteq> Nil \<and> json_Marshal L (body b) s = Inr bs \<and> buff = Some bs"
    with b q base show ?thesis by (simp add: Request_def with_receiver_def)
  qed
  have sent: "Execute L r s =
       (case client_Do L c (Some req) of
          Inl e' \<Rightarrow> Ret ((None, Some e'), s)
        | Inr reply \<Rightarrow>
            (case ioutil_ReadAll (resp_Body reply) of
               Inl e' \<Rightarrow> Ret ((None, Some e'), s)
             | Inr bodyBytes \<Rightarrow>
                 andThen (decodeResp L r
                            \<lparr>StatusCode = resp_StatusCode reply, Header = resp_Header reply,
                             Response_Success = Nil, Response_Failure = Nil\<rparr> bodyBytes s)
                   (\<lambda>((response, err), s').
                      Ret ((Some response, map_option decode_error err), s'))))"
    if "Request L r s = Ret ((Some req, None), s)" and c: "client b = Some c" for req c
  proof -
    from that have "Execute L r s = do' L r (Some req) s" by (simp add: Execute_after_Request)
    with do_submits [OF b c, of L "Some req"] show ?thesis by simp
  qed
  from built sent Request_ignores_query_error [OF b q] Execute_ignores_query_error [OF b q]
  show ?thesis by blast
qed

text \<open>
  \<open>New().SetQuery("q").Get("http://example.com?a=1")\<close>, with a server that answers with
  the URL it was asked for: the descriptor keeps the query of the stored URL, and the
  server got it.
\<close>

theorem query_error_swallowed_witness:
  "\<exists>s. bad_query_run = Ret (3, s)
      \<and> query_Values (served_by echo_url) (Val (Str ''q'')) s
          = Inl (Error ''query: Values() expects struct input. Got string'')
      \<and> Request (served_by echo_url) 3 s =
          Ret ((Some \<lparr>req_Method = ''GET'',
                      req_URL = \<lparr>Prefix = ''http://example.com'', ForceQuery = False,
                                 RawQuery = ''a=1'', Fragment = []\<rparr>,
                      req_Header = [], req_Body = None\<rparr>, None), s)
      \<and> Execute (served_by echo_url) 3 s =
          Ret ((Some \<lparr>StatusCode = 200, Header = [(''X-Url'', [''http://example.com?a=1''])],
                      Response_Success = Nil, Response_Failure = Nil\<rparr>, None), s)"
proof -
  let ?L = "served_by echo_url"
  let ?b = "\<lparr>client = Some 1, method' = ''GET'', url = ''http://example.com?a=1'', header = Some 2,
             query = Val (Str ''q''), body = Nil, Success = Nil, Failure = Nil\<rparr> :: go_value Request"
  let ?s = "\<lparr>requests = [3 \<mapsto> ?b], hmaps = (\<lambda>a. []), arrays = (\<lambda>a. []),
             objs = Map.empty, fresh = 4\<rparr> :: go_value state"
  let ?req = "\<lparr>req_Method = ''GET'',
                req_URL = \<lparr>Prefix = ''http://example.com'', ForceQuery = False,
                           RawQuery = ''a=1'', Fragment = []\<rparr>,
                req_Header = [], req_Body = None\<rparr>"
  have run: "bad_query_run = Ret (3, ?s)"
    by (simp add: bad_query_run_def request_New_store SetQuery_def Get_def setURL_def
        with_receiver_def put_def golib_def net_url_Parse_def net_url_String_def isCTL_def)
  have b: "requests ?s 3 = Some ?b" by simp
  have q: "query_Values ?L (query ?b) ?s
             = Inl (Error ''query: Values() expects struct input. Got string'')"
    by (simp add: served_by_def golib_def querystring_Values_def)
  have base: "http_NewRequest ?L (method' ?b) (url ?b) None = Inr ?req"
    by (simp add: served_by_def golib_def http_NewRequest_def http_validMethod_def isTokenByte_def
        net_url_Parse_def isCTL_def)
  have answer: "client_Do ?L 1 (Some ?req) =
      Inr \<lparr>resp_StatusCode = 200, resp_Header = [(''X-Url'', [''http://example.com?a=1''])],
           resp_Body = Reader [] None\<rparr>"
    by (simp add: served_by_def echo_url_def net_url_String_def)
  have decode: "decodeResp ?L 3 \<lparr>StatusCode = 200, Header = [(''X-Url'', [''http://example.com?a=1''])],
                                  Response_Success = Nil, Response_Failure = Nil\<rparr> [] ?s
                  = Ret ((\<lparr>StatusCode = 200, Header = [(''X-Url'', [''http://example.com?a=1''])],
                           Response_Success = Nil, Response_Failure = Nil\<rparr>, None), ?s)"
    using decodeResp_no_shape [OF b, of _ ?L "[]"] by simp
  from query_error_swallowed [OF b q] base
  have "Request ?L 3 ?s = Ret ((Some ?req, None), ?s)"
    and "Execute ?L 3 ?s =
          Ret ((Some \<lparr>StatusCode = 200, Header = [(''X-Url'', [''http://example.com?a=1''])],
                      Response_Success = Nil, Response_Failure = Nil\<rparr>, None), ?s)"
    using answer decode by simp_all
  with run q show ?thesis
    by (intro exI [of _ ?s]) simp
qed

subsection \<open>C9: the method setters\<close>

text \<open>
  Claim C9 says that a method setter changes the method field and no other field. Each
  setter takes the URL as its argument and stores it: \<open>Get("http://example.com")\<close> on
  \<open>New()\<close> changes the field \<open>url\<close> from the empty string to \<open>http://example.com\<close>.
\<close>

theorem Get_sets_url:
  "field_of url fresh_builder = Some [] \<and> field_of url after_Get = Some ''http://example.com''"
  by code_simp

text \<open>
  Claim C9, amended. Each of \<open>Get\<close>, \<open>Post\<close>, \<open>Put\<close>, \<open>Patch\<close>, \<open>Delete\<close> and \<open>Head\<close> sets the
  method field to its verb, sets the field \<open>url\<close> to the re-stringified argument when
  the argument parses and leaves it as it was otherwise, returns its receiver, and
  changes nothing else: not another field of the builder, not the rest of the store.
\<close>

theorem method_setters_frame:
  assumes b: "requests s r = Some b"
  shows "let u = (case url_Parse L a of Inr path \<Rightarrow> URL_String L path | Inl e \<Rightarrow> url b) in
           Get L r a s = Ret (r, put r (b\<lparr>method' := ''GET'', url := u\<rparr>) s)
         \<and> Post L r a s = Ret (r, put r (b\<lparr>method' := ''POST'', url := u\<rparr>) s)
         \<and> Put L r a s = Ret (r, put r (b\<lparr>method' := ''PUT'', url := u\<rparr>) s)
         \<and> Patch L r a s = Ret (r, put r (b\<lparr>method' := ''PATCH'', url := u\<rparr>) s)
         \<and> Delete L r a s = Ret (r, put r (b\<lparr>method' := ''DELETE'', url := u\<rparr>) s)
         \<and> Head L r a s = Ret (r, put r (b\<lparr>method' := ''HEAD'', url := u\<rparr>) s)"
proof -
  have step: "setURL L r a (put r (b\<lparr>method' := verb\<rparr>) s)
        = Ret (r, put r (b\<lparr>method' := verb,
                 url := (case url_Parse L a of Inr path \<Rightarrow> URL_String L path | Inl e \<Rightarrow> url b)\<rparr>) s)"
    for verb
    by (cases "url_Parse L a") (simp_all add: setURL_def with_receiver_def put_def)
  from b step show ?thesis
    by (simp add: Get_def Post_def Put_def Patch_def Delete_def Head_def with_receiver_def Let_def)
qed

text \<open>On \<open>New()\<close>: \<open>Post\<close> with a URL that parses, and \<open>Head\<close> with one that does not.\<close>

theorem method_setters_frame_witness:
  "let s = snd (request_New empty_store);
       b = \<lparr>client = Some 1, method' = ''GET'', url = [], header = Some 2,
            query = Nil, body = Nil, Success = Nil, Failure = Nil\<rparr>
   in requests s 3 = Some b
      \<and> Post golib 3 ''http://example.com'' s
          = Ret (3, put 3 (b\<lparr>method' := ''POST'', url := ''http://example.com''\<rparr>) s)
      \<and> Head golib 3 '':'' s = Ret (3, put 3 (b\<lparr>method' := ''HEAD''\<rparr>) s)"
proof -
  let ?s = "snd (request_New empty_store)"
  let ?b = "\<lparr>client = Some 1, method' = ''GET'', url = [], header = Some 2,
            query = Nil, body = Nil, Success = Nil, Failure = Nil\<rparr> :: go_value Request"
  have b: "requests ?s 3 = Some ?b" by (simp add: request_New_store)
  have ok: "(case url_Parse golib ''http://example.com'' of Inr path \<Rightarrow> URL_String golib path | Inl e \<Rightarrow> url ?b)
              = ''http://example.com''"
    by (simp add: golib_def net_url_Parse_def net_url_String_def isCTL_def)
  have bad: "(case url_Parse golib '':'' of Inr path \<Rightarrow> URL_String golib path | Inl e \<Rightarrow> url ?b) = []"
    by (simp add: golib_def net_url_Parse_def isCTL_def)
  from method_setters_frame [OF b, of golib "''http://example.com''"] ok
  have post: "Post golib 3 ''http://example.com'' ?s
          = Ret (3, put 3 (?b\<lparr>method' := ''POST'', url := ''http://example.com''\<rparr>) ?s)"
    by (simp add: Let_def)
  from method_setters_frame [OF b, of golib "'':''"] bad
  have "Head golib 3 '':'' ?s = Ret (3, put 3 (?b\<lparr>method' := ''HEAD''\<rparr>) ?s)"
    by (simp add: Let_def)
  with b post show ?thesis by (simp add: Let_def)
qed

subsection \<open>C10: the builder after materializing and executing\<close>




end
